theory Spec2Isabelle
  imports Complex_Main
begin

section \<open>Data model\<close>

text \<open>
  A JavaScript number is an IEEE double: a finite value, an infinity or NaN. The model
  takes a finite double as the real number it denotes. The coordinates the processor
  receives are finite (\<^typ>\<open>real\<close>); from normalization on, where large coordinates
  overflow, a value is a \<open>jsnum\<close>. A result of arithmetic on finite values overflows to an
  infinity when its magnitude reaches \<open>2^1024 - 2^970\<close>, where rounding to nearest leaves
  the finite doubles; below that the result is taken exact. The sign of zero is not
  modelled. Counters and lengths are \<^typ>\<open>nat\<close>.
\<close>

datatype jsnum = Num real | PosInf | NegInf | NaN

definition overflowAt :: real where
  "overflowAt = 2 ^ 1024 - 2 ^ 970"

definition fl :: "real \<Rightarrow> jsnum" where
  "fl r = (if overflowAt \<le> r then PosInf else if r \<le> - overflowAt then NegInf else Num r)"

text \<open>The operators \<^verbatim>\<open>-\<close>, \<^verbatim>\<open>*\<close> and \<^verbatim>\<open>/\<close>, and \<^verbatim>\<open>Math.min\<close> and \<^verbatim>\<open>Math.max\<close> of two numbers.\<close>

fun jsSub :: "jsnum \<Rightarrow> jsnum \<Rightarrow> jsnum" where
  "jsSub (Num a) (Num b) = fl (a - b)"
| "jsSub NaN b = NaN"
| "jsSub a NaN = NaN"
| "jsSub PosInf PosInf = NaN"
| "jsSub NegInf NegInf = NaN"
| "jsSub PosInf b = PosInf"
| "jsSub NegInf b = NegInf"
| "jsSub (Num a) PosInf = NegInf"
| "jsSub (Num a) NegInf = PosInf"

fun jsMul :: "jsnum \<Rightarrow> jsnum \<Rightarrow> jsnum" where
  "jsMul (Num a) (Num b) = fl (a * b)"
| "jsMul NaN b = NaN"
| "jsMul a NaN = NaN"
| "jsMul PosInf (Num b) = (if 0 < b then PosInf else if b < 0 then NegInf else NaN)"
| "jsMul NegInf (Num b) = (if 0 < b then NegInf else if b < 0 then PosInf else NaN)"
| "jsMul (Num a) PosInf = (if 0 < a then PosInf else if a < 0 then NegInf else NaN)"
| "jsMul (Num a) NegInf = (if 0 < a then NegInf else if a < 0 then PosInf else NaN)"
| "jsMul PosInf PosInf = PosInf"
| "jsMul NegInf NegInf = PosInf"
| "jsMul PosInf NegInf = NegInf"
| "jsMul NegInf PosInf = NegInf"

fun jsDiv :: "jsnum \<Rightarrow> jsnum \<Rightarrow> jsnum" where
  "jsDiv (Num a) (Num b) =
     (if b = 0 then (if 0 < a then PosInf else if a < 0 then NegInf else NaN)
      else fl (a / b))"
| "jsDiv NaN b = NaN"
| "jsDiv a NaN = NaN"
| "jsDiv (Num a) b = Num 0"
| "jsDiv PosInf (Num b) = (if 0 \<le> b then PosInf else NegInf)"
| "jsDiv NegInf (Num b) = (if 0 \<le> b then NegInf else PosInf)"
| "jsDiv a b = NaN"

fun jsMin :: "jsnum \<Rightarrow> jsnum \<Rightarrow> jsnum" where
  "jsMin (Num a) (Num b) = Num (min a b)"
| "jsMin NaN b = NaN"
| "jsMin a NaN = NaN"
| "jsMin NegInf b = NegInf"
| "jsMin a NegInf = NegInf"
| "jsMin PosInf b = b"
| "jsMin a PosInf = a"

fun jsMax :: "jsnum \<Rightarrow> jsnum \<Rightarrow> jsnum" where
  "jsMax (Num a) (Num b) = Num (max a b)"
| "jsMax NaN b = NaN"
| "jsMax a NaN = NaN"
| "jsMax PosInf b = PosInf"
| "jsMax a PosInf = PosInf"
| "jsMax NegInf b = b"
| "jsMax a NegInf = a"

text \<open>
  \<^verbatim>\<open>_getCanvasPoint\<close> returns an object \<^verbatim>\<open>{x, y, timestamp}\<close>; the objects pushed onto a
  stroke and made by the processor are \<^verbatim>\<open>{x, y, penState}\<close>. A property an object literal
  does not set reads as \<^verbatim>\<open>undefined\<close>: the \<open>timestamp\<close> of a stroke point is an option,
  \<open>None\<close> where the literal has no such property. The type parameter is the type of the
  coordinates.
\<close>

record canvas_point =
  x :: real
  y :: real
  timestamp :: int

record 'n point =
  x :: 'n
  y :: 'n
  penState :: nat
  timestamp :: "int option"

type_synonym stroke = "real point list"

text \<open>The object literal \<^verbatim>\<open>{ x: a, y: b, penState: s }\<close>.\<close>

definition mkPoint :: "'n \<Rightarrow> 'n \<Rightarrow> nat \<Rightarrow> 'n point" where
  "mkPoint a b s = \<lparr>x = a, y = b, penState = s, timestamp = None\<rparr>"

record config =
  canvasWidth :: nat
  canvasHeight :: nat
  maxSeqLength :: nat
  resampleDistance :: real
  normalizeToUnitRange :: bool
  useDeltaCoordinates :: bool

definition DEFAULT_CONFIG :: config where
  "DEFAULT_CONFIG =
     \<lparr>canvasWidth = 400, canvasHeight = 200, maxSeqLength = 256, resampleDistance = 3,
      normalizeToUnitRange = True, useDeltaCoordinates = True\<rparr>"

section \<open>StrokeProcessor\<close>

text \<open>\<^verbatim>\<open>_flattenStrokes\<close>: a fresh \<^verbatim>\<open>{x, y, penState}\<close> for every point, in stroke order.\<close>

definition flattenStrokes :: "stroke list \<Rightarrow> real point list" where
  "flattenStrokes strokes =
     concat (map (map (\<lambda>point. mkPoint (x point) (y point) (penState point))) strokes)"

text \<open>
  The loop of \<^verbatim>\<open>_resamplePoints\<close>, \<^verbatim>\<open>for (let i = 1; i < points.length; i++)\<close>, with its
  variables \<open>resampled\<close> and \<open>accumulatedDist\<close>. The accumulated distance is compared with
  a threshold, and there the rounding of each operation can decide: \<open>rnd\<close> is the rounding
  of a real to the double nearest to it, a parameter of the model, applied to the result
  of every operation as IEEE arithmetic and \<^verbatim>\<open>Math.sqrt\<close> do. Overflow is not modelled in
  this loop.
\<close>

function resampleLoop ::
  "(real \<Rightarrow> real) \<Rightarrow> real \<Rightarrow> real point list \<Rightarrow> nat \<Rightarrow> real point list \<Rightarrow> real \<Rightarrow>
   real point list" where
  "resampleLoop rnd minDist points i resampled accumulatedDist =
     (if i < length points then
        (let dx = rnd (x (points ! i) - x (points ! (i - 1)));
             dy = rnd (y (points ! i) - y (points ! (i - 1)));
             dist = rnd (sqrt (rnd (rnd (dx * dx) + rnd (dy * dy))));
             acc = rnd (accumulatedDist + dist)
         in if penState (points ! i) = 0 \<and> penState (points ! (i - 1)) = 1
            then resampleLoop rnd minDist points (i + 1) (resampled @ [points ! i]) 0
            else if acc \<ge> minDist
            then resampleLoop rnd minDist points (i + 1) (resampled @ [points ! i]) 0
            else resampleLoop rnd minDist points (i + 1) resampled acc)
      else resampled)"
  by pat_completeness auto
termination
  by (relation "measure (\<lambda>(rnd, minDist, points, i, resampled, acc). length points - i)") auto

declare resampleLoop.simps [simp del]

definition resamplePoints :: "(real \<Rightarrow> real) \<Rightarrow> config \<Rightarrow> real point list \<Rightarrow> real point list" where
  "resamplePoints rnd cfg points =
     (if length points < 2 then points
      else
        (let resampled = resampleLoop rnd (resampleDistance cfg) points 1 [points ! 0] 0
         in if length resampled > 0 then
              (let last = points ! (length points - 1);
                   resampledLast = resampled ! (length resampled - 1)
               in if x last \<noteq> x resampledLast \<or> y last \<noteq> y resampledLast
                  then resampled @ [last] else resampled)
            else resampled))"

text \<open>
  \<^verbatim>\<open>_normalizeCoordinates\<close>, with \<open>xMin\<close> and \<open>yMin\<close> starting at \<open>Infinity\<close>, \<open>xMax\<close> and
  \<open>yMax\<close> at \<open>-Infinity\<close>.
\<close>

definition normalizeCoordinates :: "real point list \<Rightarrow> jsnum point list" where
  "normalizeCoordinates points =
     (if length points = 0 then []
      else
        (let xMin = fold (\<lambda>p m. jsMin m (Num (x p))) points PosInf;
             xMax = fold (\<lambda>p m. jsMax m (Num (x p))) points NegInf;
             yMin = fold (\<lambda>p m. jsMin m (Num (y p))) points PosInf;
             yMax = fold (\<lambda>p m. jsMax m (Num (y p))) points NegInf;
             xRange = jsMax (jsSub xMax xMin) (Num 1);
             yRange = jsMax (jsSub yMax yMin) (Num 1)
         in map (\<lambda>p. mkPoint
                  (jsSub (jsDiv (jsMul (Num 2) (jsSub (Num (x p)) xMin)) xRange) (Num 1))
                  (jsSub (jsDiv (jsMul (Num 2) (jsSub (Num (y p)) yMin)) yRange) (Num 1))
                  (penState p)) points))"

text \<open>\<^verbatim>\<open>_toDeltaCoordinates\<close>: the loop pushes one delta for each index from 1.\<close>

definition toDeltaCoordinates :: "jsnum point list \<Rightarrow> jsnum point list" where
  "toDeltaCoordinates points =
     (if length points < 2 then map (\<lambda>p. mkPoint (Num 0) (Num 0) (penState p)) points
      else mkPoint (Num 0) (Num 0) (penState (points ! 0)) #
           map (\<lambda>i. mkPoint (jsSub (x (points ! i)) (x (points ! (i - 1))))
                            (jsSub (y (points ! i)) (y (points ! (i - 1))))
                            (penState (points ! i)))
               [1 ..< length points])"

text \<open>\<^verbatim>\<open>_padSequence\<close>: \<^verbatim>\<open>while (padded.length < maxLen) padded.push({x: 0, y: 0, penState: 0})\<close>.\<close>

function padLoop :: "nat \<Rightarrow> jsnum point list \<Rightarrow> jsnum point list" where
  "padLoop maxLen padded =
     (if length padded < maxLen then padLoop maxLen (padded @ [mkPoint (Num 0) (Num 0) 0])
      else padded)"
  by pat_completeness auto
termination
  by (relation "measure (\<lambda>(maxLen, padded). maxLen - length padded)") auto

declare padLoop.simps [simp del]

definition padSequence :: "config \<Rightarrow> jsnum point list \<Rightarrow> jsnum point list" where
  "padSequence cfg points =
     (let maxLen = maxSeqLength cfg
      in if length points \<ge> maxLen then take maxLen points else padLoop maxLen points)"

text \<open>
  \<^verbatim>\<open>_toFloat32Array\<close>: three cells for each point, in order. The rounding of a double to
  a 32-bit float on the store is not modelled.
\<close>

fun toFloat32Array :: "jsnum point list \<Rightarrow> jsnum list" where
  "toFloat32Array [] = []"
| "toFloat32Array (p # ps) = x p # y p # Num (real (penState p)) # toFloat32Array ps"

text \<open>
  \<^verbatim>\<open>process(strokes)\<close>. \<open>None\<close> is a missing argument (\<^verbatim>\<open>null\<close>, \<^verbatim>\<open>undefined\<close>);
  \<^verbatim>\<open>new Float32Array(n)\<close> is \<open>n\<close> zeros.
\<close>

definition process :: "(real \<Rightarrow> real) \<Rightarrow> config \<Rightarrow> stroke list option \<Rightarrow> jsnum list" where
  "process rnd cfg strokes =
     (case strokes of
        None \<Rightarrow> replicate (maxSeqLength cfg * 3) (Num 0)
      | Some ss \<Rightarrow>
          if length ss = 0 then replicate (maxSeqLength cfg * 3) (Num 0)
          else
            (let points = flattenStrokes ss;
                 points = resamplePoints rnd cfg points;
                 points = normalizeCoordinates points;
                 points = (if useDeltaCoordinates cfg then toDeltaCoordinates points else points);
                 points = padSequence cfg points
             in toFloat32Array points))"

text \<open>
  The frames of a stroke set before padding: what \<^verbatim>\<open>process\<close> hands to
  \<^verbatim>\<open>_padSequence\<close>, and no frame for an empty or missing stroke list.
\<close>

definition featureFrames ::
  "(real \<Rightarrow> real) \<Rightarrow> config \<Rightarrow> stroke list option \<Rightarrow> jsnum point list" where
  "featureFrames rnd cfg strokes =
     (case strokes of
        None \<Rightarrow> []
      | Some ss \<Rightarrow>
          (let points = normalizeCoordinates (resamplePoints rnd cfg (flattenStrokes ss))
           in if useDeltaCoordinates cfg then toDeltaCoordinates points else points))"

text \<open>
  The map of normalization in one dimension, over the bounding box of the points, in
  exact arithmetic: \<open>2 * (v - min) / max(range, 1) - 1\<close>.
\<close>

definition normalized :: "(real point \<Rightarrow> real) \<Rightarrow> real point list \<Rightarrow> real point \<Rightarrow> real" where
  "normalized f ps p =
     2 * (f p - Min (f ` set ps)) / max (Max (f ` set ps) - Min (f ` set ps)) 1 - 1"

text \<open>A number of the closed interval from -1 to 1.\<close>

definition inUnitInterval :: "jsnum \<Rightarrow> bool" where
  "inUnitInterval n = (case n of Num v \<Rightarrow> - 1 \<le> v \<and> v \<le> 1 | _ \<Rightarrow> False)"

section \<open>StrokeCapture\<close>

text \<open>
  A mouse or touch event as \<^verbatim>\<open>_getCanvasPoint\<close> reads it: the client coordinates, the
  rectangle \<^verbatim>\<open>canvas.getBoundingClientRect()\<close> returns at that moment, and the value of
  \<^verbatim>\<open>Date.now()\<close>.
\<close>

record pointer_event =
  clientX :: real
  clientY :: real
  rectLeft :: real
  rectTop :: real
  rectWidth :: real
  rectHeight :: real
  now :: int

text \<open>
  The fields of \<^verbatim>\<open>StrokeCapture\<close>, with the intrinsic size of its canvas. Drawing on the
  2D context is not modelled, and \<^verbatim>\<open>this.config\<close> is never read by the class.
\<close>

record capture =
  width :: real
  height :: real
  strokes :: "stroke list"
  currentStroke :: stroke
  isDrawing :: bool
  lastPoint :: "canvas_point option"

definition newCapture :: "real \<Rightarrow> real \<Rightarrow> capture" where
  "newCapture w h =
     \<lparr>width = w, height = h, strokes = [], currentStroke = [], isDrawing = False,
      lastPoint = None\<rparr>"

text \<open>
  \<^verbatim>\<open>_getCanvasPoint\<close>. A rectangle of width or height 0 gives a non-finite coordinate in
  JavaScript and 0 in HOL: the model is for a canvas that is laid out.
\<close>

definition getCanvasPoint :: "capture \<Rightarrow> pointer_event \<Rightarrow> canvas_point" where
  "getCanvasPoint c event =
     (let scaleX = width c / rectWidth event;
          scaleY = height c / rectHeight event
      in \<lparr>canvas_point.x = (clientX event - rectLeft event) * scaleX,
          canvas_point.y = (clientY event - rectTop event) * scaleY,
          canvas_point.timestamp = now event\<rparr>)"

definition onPointerDown :: "capture \<Rightarrow> pointer_event \<Rightarrow> capture" where
  "onPointerDown c event =
     (let pt = getCanvasPoint c event
      in c\<lparr>isDrawing := True,
           currentStroke := [mkPoint (canvas_point.x pt) (canvas_point.y pt) 1],
           lastPoint := Some pt\<rparr>)"

definition onPointerMove :: "capture \<Rightarrow> pointer_event \<Rightarrow> capture" where
  "onPointerMove c event =
     (if \<not> isDrawing c then c
      else
        (let pt = getCanvasPoint c event
         in c\<lparr>currentStroke :=
                currentStroke c @ [mkPoint (canvas_point.x pt) (canvas_point.y pt) 1],
              lastPoint := Some pt\<rparr>))"

text \<open>
  \<^verbatim>\<open>_onPointerUp\<close>: the last point of the current stroke is set to pen up in place, and a
  copy of the array goes onto \<open>strokes\<close>.
\<close>

definition onPointerUp :: "capture \<Rightarrow> capture" where
  "onPointerUp c =
     (if \<not> isDrawing c then c
      else
        (let cs = currentStroke c;
             c1 = c\<lparr>isDrawing := False\<rparr>;
             c2 = (if length cs > 0
                   then c1\<lparr>strokes :=
                           strokes c1 @
                           [cs[length cs - 1 := (cs ! (length cs - 1))\<lparr>penState := 0\<rparr>]]\<rparr>
                   else c1)
         in c2\<lparr>currentStroke := [], lastPoint := None\<rparr>))"

definition getStrokes :: "capture \<Rightarrow> stroke list" where
  "getStrokes c = strokes c"

definition clear :: "capture \<Rightarrow> capture" where
  "clear c = c\<lparr>strokes := [], currentStroke := []\<rparr>"

definition hasStrokes :: "capture \<Rightarrow> bool" where
  "hasStrokes c \<longleftrightarrow> length (strokes c) > 0 \<or> length (currentStroke c) > 0"

text \<open>
  The listeners: mouse down and touch start, mouse move and touch move, and the four
  events that end a stroke; \<open>Clear\<close> is a call of \<^verbatim>\<open>clear()\<close>.
\<close>

datatype capture_event =
  PointerDown pointer_event | PointerMove pointer_event | PointerUp | Clear

fun handle :: "capture_event \<Rightarrow> capture \<Rightarrow> capture" where
  "handle (PointerDown event) c = onPointerDown c event"
| "handle (PointerMove event) c = onPointerMove c event"
| "handle PointerUp c = onPointerUp c"
| "handle Clear c = clear c"

definition run :: "capture_event list \<Rightarrow> capture \<Rightarrow> capture" where
  "run events c = fold handle events c"

section \<open>Offline recognition\<close>

text \<open>
  The state of the module \<^verbatim>\<open>offline_handwriting.js\<close>. \<open>modelLoadPromise\<close> is \<open>None\<close> for
  \<^verbatim>\<open>null\<close> and otherwise the promise as settled: \<^verbatim>\<open>await\<close> returns on \<open>Fulfilled\<close> and
  throws the reason on \<open>Rejected\<close>. The recognizer is an object of \<^verbatim>\<open>HandwritingRecognizer\<close>,
  a class outside these sources: it is its method \<^verbatim>\<open>recognize\<close>, which returns a result or
  throws a message.
\<close>

datatype load_promise = Fulfilled | Rejected string

record 'r offline_state =
  recognizer :: "(stroke list \<Rightarrow> string + 'r) option"
  strokeCaptures :: "string \<rightharpoonup> capture"
  isModelLoaded :: bool
  modelLoadPromise :: "load_promise option"

text \<open>\<open>EmptyInput\<close> is the object \<^verbatim>\<open>{ text: '', isEmpty: true }\<close>.\<close>

datatype 'r recognition = EmptyInput | Recognized 'r

text \<open>
  \<^verbatim>\<open>recognizeOffline(canvasId)\<close>: what it returns or throws (\<open>Inl\<close> the message), and the
  arguments of every call of \<^verbatim>\<open>recognizer.recognize\<close> it made.
\<close>

definition recognizeOffline ::
  "'r offline_state \<Rightarrow> string \<Rightarrow> (string + 'r recognition) \<times> stroke list list" where
  "recognizeOffline st canvasId =
     (case modelLoadPromise st of
        Some (Rejected reason) \<Rightarrow> (Inl reason, [])
      | _ \<Rightarrow>
          (case (isModelLoaded st, recognizer st) of
             (True, Some recognize) \<Rightarrow>
               (case strokeCaptures st canvasId of
                  None \<Rightarrow> (Inl ''No stroke capture for canvas'', [])
                | Some cap \<Rightarrow>
                    (let strokes = getStrokes cap
                     in if length strokes = 0 then (Inr EmptyInput, [])
                        else
                          (case recognize strokes of
                             Inl message \<Rightarrow> (Inl message, [strokes])
                           | Inr result \<Rightarrow> (Inr (Recognized result), [strokes]))))
           | _ \<Rightarrow> (Inl ''Model not available'', [])))"

section \<open>CTC decoding\<close>

text \<open>A JavaScript string: its UTF-16 code units.\<close>

type_synonym jsstring = "nat list"

text \<open>
  Modelled from the spec: the greedy decoder of \<^verbatim>\<open>ctc_decoder.js\<close>, a file the page loads
  and these sources do not hold. The label alphabet is an indexed list of symbols with the
  index of the blank token. For each timestep the decoder takes the arg-max label of the
  row (the first index of the greatest probability), then collapses consecutive repeats of
  the same non-blank label into one, and drops all blank emissions.
\<close>

record alphabet =
  symbols :: "jsstring list"
  blank :: nat

fun argmaxLoop :: "real list \<Rightarrow> nat \<Rightarrow> nat \<Rightarrow> real \<Rightarrow> nat" where
  "argmaxLoop [] i best bestP = best"
| "argmaxLoop (p # ps) i best bestP =
     (if p > bestP then argmaxLoop ps (i + 1) i p else argmaxLoop ps (i + 1) best bestP)"

definition argmax :: "real list \<Rightarrow> nat" where
  "argmax row = (case row of [] \<Rightarrow> 0 | p # ps \<Rightarrow> argmaxLoop ps 1 0 p)"

fun collapseRepeats :: "nat \<Rightarrow> nat list \<Rightarrow> nat list" where
  "collapseRepeats b (l # l' # ls) =
     (if l = l' \<and> l \<noteq> b then collapseRepeats b (l' # ls)
      else l # collapseRepeats b (l' # ls))"
| "collapseRepeats b ls = ls"

definition dropBlanks :: "nat \<Rightarrow> nat list \<Rightarrow> nat list" where
  "dropBlanks b ls = filter (\<lambda>l. l \<noteq> b) ls"

definition symbolOf :: "alphabet \<Rightarrow> nat \<Rightarrow> jsstring" where
  "symbolOf a l = (if l < length (symbols a) then symbols a ! l else [])"

definition greedyDecode :: "alphabet \<Rightarrow> real list list \<Rightarrow> jsstring" where
  "greedyDecode a matrix =
     concat (map (symbolOf a) (dropBlanks (blank a) (collapseRepeats (blank a) (map argmax matrix))))"

text \<open>The alphabet of blank, U+0915 and U+0916 (the letters ka and kha).\<close>

definition kaKhaAlphabet :: alphabet where
  "kaKhaAlphabet = \<lparr>symbols = [[], [2325], [2326]], blank = 0\<rparr>"

section \<open>Tesseract recognition\<close>





text \<open>\<^verbatim>\<open>text.split(sep)\<close> and \<^verbatim>\<open>lines.join(sep)\<close> for a separator of one code unit.\<close>

fun split :: "nat \<Rightarrow> jsstring \<Rightarrow> jsstring list" where
  "split sep [] = [[]]"
| "split sep (c # cs) =
     (if c = sep then [] # split sep cs
      else (case split sep cs of [] \<Rightarrow> [[c]] | l # ls \<Rightarrow> (c # l) # ls))"












section \<open>Arithmetic of doubles\<close>

lemma overflowAt_gt: "2 ^ 1023 < overflowAt"
proof -
  have "(2::real) ^ 970 < 2 ^ 1023"
    by (rule power_strict_increasing) simp_all
  moreover have "(2::real) ^ 1024 = 2 * 2 ^ 1023"
    by simp
  ultimately show ?thesis
    by (simp add: overflowAt_def)
qed

lemma overflowAt_le: "overflowAt \<le> 2 ^ 1024"
  by (simp add: overflowAt_def)

lemma overflowAt_gt_2: "2 < overflowAt"
proof -
  have "(2::real) ^ 1 \<le> 2 ^ 1023"
    by (rule power_increasing) simp_all
  with overflowAt_gt show ?thesis
    by simp
qed

lemma fl_exact: "- overflowAt < r \<Longrightarrow> r < overflowAt \<Longrightarrow> fl r = Num r"
  by (simp add: fl_def)

lemma fl_small: "\<bar>r\<bar> \<le> 2 \<Longrightarrow> fl r = Num r"
  using overflowAt_gt_2 by (intro fl_exact) simp_all

lemma jsSub_exact: "\<bar>a - b\<bar> < overflowAt \<Longrightarrow> jsSub (Num a) (Num b) = Num (a - b)"
  by (simp add: fl_exact)

section \<open>Padding and truncation\<close>

lemma padLoop_replicate:
  "padLoop maxLen padded =
     padded @ replicate (maxLen - length padded) (mkPoint (Num 0) (Num 0) 0)"
proof (induction maxLen padded rule: padLoop.induct)
  case (1 maxLen padded)
  show ?case
  proof (cases "length padded < maxLen")
    case True
    then have "maxLen - length padded = Suc (maxLen - Suc (length padded))"
      by simp
    with True "1" show ?thesis
      by (subst padLoop.simps) (simp add: replicate_app_Cons_same)
  next
    case False
    then show ?thesis
      by (subst padLoop.simps) simp
  qed
qed

lemma padSequence_eq:
  "padSequence cfg points =
     take (maxSeqLength cfg) points @
     replicate (maxSeqLength cfg - length points) (mkPoint (Num 0) (Num 0) 0)"
  by (simp add: padSequence_def Let_def padLoop_replicate)

lemma toFloat32Array_append:
  "toFloat32Array (ps @ qs) = toFloat32Array ps @ toFloat32Array qs"
  by (induction ps) simp_all

lemma toFloat32Array_zero_frames:
  "toFloat32Array (replicate n (mkPoint (Num 0) (Num 0) 0)) = replicate (n * 3) (Num 0)"
  by (induction n) (simp_all add: mkPoint_def replicate_add numeral_3_eq_3)

lemma length_toFloat32Array: "length (toFloat32Array ps) = length ps * 3"
  by (induction ps) simp_all

lemma flattenStrokes_Nil: "flattenStrokes [] = []"
  by (simp add: flattenStrokes_def)

lemma resamplePoints_Nil: "resamplePoints rnd cfg [] = []"
  by (simp add: resamplePoints_def)

lemma normalizeCoordinates_Nil: "normalizeCoordinates [] = []"
  by (simp add: normalizeCoordinates_def)

lemma toDeltaCoordinates_Nil: "toDeltaCoordinates [] = []"
  by (simp add: toDeltaCoordinates_def)

lemma featureFrames_empty: "featureFrames rnd cfg (Some []) = []"
  by (simp add: featureFrames_def flattenStrokes_Nil resamplePoints_Nil
      normalizeCoordinates_Nil toDeltaCoordinates_Nil)

lemma process_eq_padded_frames:
  "process rnd cfg strokeSet =
     toFloat32Array (take (maxSeqLength cfg) (featureFrames rnd cfg strokeSet)) @
     replicate ((maxSeqLength cfg - length (featureFrames rnd cfg strokeSet)) * 3) (Num 0)"
proof (cases strokeSet)
  case None
  then show ?thesis
    by (simp add: process_def featureFrames_def)
next
  case (Some ss)
  show ?thesis
  proof (cases "ss = []")
    case True
    with Some show ?thesis
      by (simp add: process_def featureFrames_empty)
  next
    case False
    with Some show ?thesis
      by (simp add: process_def featureFrames_def Let_def padSequence_eq
          toFloat32Array_append toFloat32Array_zero_frames)
  qed
qed

text \<open>
  C1. For every stroke set, missing and empty included, \<open>process\<close> returns
  \<open>maxSeqLength * 3\<close> cells (768 with the default configuration): the cells of the first
  \<open>maxSeqLength\<close> frames of the sequence, three for each frame, followed by zeros only
  (frames with \<open>dx = dy = 0\<close> and \<open>penState = 0\<close>) for every frame the sequence is short of
  \<open>maxSeqLength\<close>.
\<close>

theorem process_fixed_length:
  "length (process rnd cfg strokeSet) = maxSeqLength cfg * 3 \<and>
   length (process rnd DEFAULT_CONFIG strokeSet) = 256 * 3 \<and>
   process rnd cfg strokeSet =
     toFloat32Array (take (maxSeqLength cfg) (featureFrames rnd cfg strokeSet)) @
     replicate ((maxSeqLength cfg - length (featureFrames rnd cfg strokeSet)) * 3) (Num 0)"
proof -
  have len: "length (process rnd c strokeSet) = maxSeqLength c * 3" for c
    by (subst process_eq_padded_frames) (simp add: length_toFloat32Array)
  have "maxSeqLength DEFAULT_CONFIG = 256"
    by (simp add: DEFAULT_CONFIG_def)
  with len [of DEFAULT_CONFIG] len [of cfg] process_eq_padded_frames [of rnd cfg strokeSet]
  show ?thesis
    by simp
qed

section \<open>Delta encoding\<close>

lemma length_toDeltaCoordinates: "length (toDeltaCoordinates ps) = length ps"
  by (auto simp: toDeltaCoordinates_def)

lemma toDeltaCoordinates_nth:
  assumes "i < length ps"
  shows "toDeltaCoordinates ps ! i =
           (if i = 0 then mkPoint (Num 0) (Num 0) (penState (ps ! 0))
            else mkPoint (jsSub (x (ps ! i)) (x (ps ! (i - 1))))
                   (jsSub (y (ps ! i)) (y (ps ! (i - 1)))) (penState (ps ! i)))"
proof (cases "length ps < 2")
  case True
  with assms have "i = 0"
    by simp
  with True assms show ?thesis
    by (simp add: toDeltaCoordinates_def)
next
  case False
  show ?thesis
  proof (cases i)
    case 0
    with False show ?thesis
      by (simp add: toDeltaCoordinates_def)
  next
    case (Suc k)
    with assms have "k < length ps - 1"
      by simp
    with False Suc show ?thesis
      by (simp add: toDeltaCoordinates_def)
  qed
qed

text \<open>
  C5. Delta encoding keeps the number of points; the first point becomes \<open>(0, 0)\<close>, every
  later point becomes its difference from the point right before it, and every point
  keeps its \<open>penState\<close>. The difference is the subtraction of doubles: of two finite
  values whose difference does not overflow, it is their difference.
\<close>

theorem toDeltaCoordinates_spec:
  "length (toDeltaCoordinates ps) = length ps \<and>
   (\<forall>i < length ps.
      penState (toDeltaCoordinates ps ! i) = penState (ps ! i) \<and>
      x (toDeltaCoordinates ps ! i) =
        (if i = 0 then Num 0 else jsSub (x (ps ! i)) (x (ps ! (i - 1)))) \<and>
      y (toDeltaCoordinates ps ! i) =
        (if i = 0 then Num 0 else jsSub (y (ps ! i)) (y (ps ! (i - 1))))) \<and>
   (\<forall>a b. \<bar>a - b\<bar> < overflowAt \<longrightarrow> jsSub (Num a) (Num b) = Num (a - b))"
  by (simp add: length_toDeltaCoordinates toDeltaCoordinates_nth mkPoint_def fl_exact
      abs_less_iff)

theorem toDeltaCoordinates_spec_witness:
  "length (toDeltaCoordinates
     [mkPoint (Num 1) (Num 2) 1, mkPoint (Num 4) (Num 6) 1, mkPoint (Num 3) (Num 8) 0]) = 3 \<and>
   penState (toDeltaCoordinates
     [mkPoint (Num 1) (Num 2) 1, mkPoint (Num 4) (Num 6) 1, mkPoint (Num 3) (Num 8) 0] ! 2) = 0 \<and>
   x (toDeltaCoordinates
     [mkPoint (Num 1) (Num 2) 1, mkPoint (Num 4) (Num 6) 1, mkPoint (Num 3) (Num 8) 0] ! 0) =
     Num 0 \<and>
   x (toDeltaCoordinates
     [mkPoint (Num 1) (Num 2) 1, mkPoint (Num 4) (Num 6) 1, mkPoint (Num 3) (Num 8) 0] ! 2) =
     Num (- 1) \<and>
   y (toDeltaCoordinates
     [mkPoint (Num 1) (Num 2) 1, mkPoint (Num 4) (Num 6) 1, mkPoint (Num 3) (Num 8) 0] ! 2) =
     Num 2"
proof -
  have "fl (3 - 4) = Num (3 - 4)" and "fl (8 - 6) = Num (8 - 6)"
    by (rule fl_small, simp)+
  with toDeltaCoordinates_spec
    [of "[mkPoint (Num 1) (Num 2) 1, mkPoint (Num 4) (Num 6) 1, mkPoint (Num 3) (Num 8) 0]"]
  show ?thesis
    by (simp add: mkPoint_def)
qed

section \<open>Normalization\<close>

lemma fold_min_Min:
  "fold (\<lambda>p m. min m (f p)) ps (a::real) = Min (insert a (f ` set ps))"
proof (induction ps arbitrary: a)
  case Nil
  then show ?case by simp
next
  case (Cons p ps)
  have "Min (insert (min a (f p)) (f ` set ps)) = Min (insert a (insert (f p) (f ` set ps)))"
    by (cases "set ps = {}") (simp_all add: min.assoc)
  with Cons show ?case
    by simp
qed

lemma fold_max_Max:
  "fold (\<lambda>p m. max m (f p)) ps (a::real) = Max (insert a (f ` set ps))"
proof (induction ps arbitrary: a)
  case Nil
  then show ?case by simp
next
  case (Cons p ps)
  have "Max (insert (max a (f p)) (f ` set ps)) = Max (insert a (insert (f p) (f ` set ps)))"
    by (cases "set ps = {}") (simp_all add: max.assoc)
  with Cons show ?case
    by simp
qed

lemma fold_jsMin_Num:
  "fold (\<lambda>p m. jsMin m (Num (f p))) ps (Num a) = Num (fold (\<lambda>p m. min m (f p)) ps a)"
  by (induction ps arbitrary: a) simp_all

lemma fold_jsMax_Num:
  "fold (\<lambda>p m. jsMax m (Num (f p))) ps (Num a) = Num (fold (\<lambda>p m. max m (f p)) ps a)"
  by (induction ps arbitrary: a) simp_all

lemma bounding_box:
  assumes "ps \<noteq> []"
  shows "fold (\<lambda>p m. jsMin m (Num (f p))) ps PosInf = Num (Min (f ` set ps))"
    and "fold (\<lambda>p m. jsMax m (Num (f p))) ps NegInf = Num (Max (f ` set ps))"
proof -
  from assms obtain p0 rest where ps: "ps = p0 # rest"
    by (cases ps) auto
  show "fold (\<lambda>p m. jsMin m (Num (f p))) ps PosInf = Num (Min (f ` set ps))"
    by (simp add: ps fold_jsMin_Num fold_min_Min)
  show "fold (\<lambda>p m. jsMax m (Num (f p))) ps NegInf = Num (Max (f ` set ps))"
    by (simp add: ps fold_jsMax_Num fold_max_Max)
qed

text \<open>One coordinate of normalization, as the doubles compute it.\<close>

lemma normalizeCoordinates_map:
  assumes "ps \<noteq> []"
  shows "normalizeCoordinates ps =
     map (\<lambda>p. mkPoint
            (jsSub (jsDiv (jsMul (Num 2) (jsSub (Num (x p)) (Num (Min (x ` set ps)))))
                      (jsMax (jsSub (Num (Max (x ` set ps))) (Num (Min (x ` set ps)))) (Num 1)))
               (Num 1))
            (jsSub (jsDiv (jsMul (Num 2) (jsSub (Num (y p)) (Num (Min (y ` set ps)))))
                      (jsMax (jsSub (Num (Max (y ` set ps))) (Num (Min (y ` set ps)))) (Num 1)))
               (Num 1))
            (penState p)) ps"
  using assms
  unfolding normalizeCoordinates_def Let_def bounding_box [OF assms]
  by simp

lemma coordinate_exact:
  assumes p: "p \<in> set ps" and ext: "2 * (Max (f ` set ps) - Min (f ` set ps)) < overflowAt"
  shows "jsSub (jsDiv (jsMul (Num 2) (jsSub (Num (f p)) (Num (Min (f ` set ps)))))
                  (jsMax (jsSub (Num (Max (f ` set ps))) (Num (Min (f ` set ps)))) (Num 1)))
           (Num 1) = Num (normalized f ps p)"
proof -
  define lo hi where "lo = Min (f ` set ps)" and "hi = Max (f ` set ps)"
  define t where "t = f p - lo"
  define e where "e = hi - lo"
  define r where "r = max e 1"
  define q where "q = 2 * t / r"
  from p have "lo \<le> f p" and "f p \<le> hi"
    by (simp_all add: lo_def hi_def)
  then have t: "0 \<le> t" "t \<le> e"
    by (simp_all add: t_def e_def)
  from ext have e: "2 * e < overflowAt"
    by (simp add: lo_def hi_def e_def)
  from t e have "fl e = Num e"
    by (intro fl_exact) simp_all
  then have range: "jsSub (Num hi) (Num lo) = Num e"
    by (simp add: e_def)
  from t e have "fl t = Num t"
    by (intro fl_exact) simp_all
  then have diff: "jsSub (Num (f p)) (Num lo) = Num t"
    by (simp add: t_def)
  from t e have "fl (2 * t) = Num (2 * t)"
    by (intro fl_exact) simp_all
  then have twice: "jsMul (Num 2) (Num t) = Num (2 * t)"
    by simp
  have r: "1 \<le> r" "t \<le> r"
    using t by (simp_all add: r_def)
  then have q: "0 \<le> q" "q \<le> 2"
    using t by (simp_all add: q_def divide_le_eq)
  then have "fl q = Num q"
    by (intro fl_small) simp
  with r have quot: "jsDiv (Num (2 * t)) (Num r) = Num q"
    by (simp add: q_def)
  from q have "fl (q - 1) = Num (q - 1)"
    by (intro fl_small) (simp add: abs_le_iff)
  then have last: "jsSub (Num q) (Num 1) = Num (q - 1)"
    by simp
  have "normalized f ps p = q - 1"
    by (simp add: normalized_def q_def r_def e_def t_def lo_def hi_def)
  moreover have "jsMax (Num e) (Num 1) = Num r"
    by (simp add: r_def)
  ultimately show ?thesis
    unfolding lo_def [symmetric] hi_def [symmetric]
    by (simp only: range diff twice quot last)
qed

lemma normalizeCoordinates_x:
  assumes "ps \<noteq> []" and "2 * (Max (x ` set ps) - Min (x ` set ps)) < overflowAt"
  shows "map x (normalizeCoordinates ps) = map (\<lambda>p. Num (normalized x ps p)) ps"
  unfolding normalizeCoordinates_map [OF assms(1)]
  by (simp add: mkPoint_def coordinate_exact [where f = x, OF _ assms(2)] cong: map_cong
      del: jsSub.simps jsMul.simps jsDiv.simps jsMax.simps)

lemma normalizeCoordinates_y:
  assumes "ps \<noteq> []" and "2 * (Max (y ` set ps) - Min (y ` set ps)) < overflowAt"
  shows "map y (normalizeCoordinates ps) = map (\<lambda>p. Num (normalized y ps p)) ps"
  unfolding normalizeCoordinates_map [OF assms(1)]
  by (simp add: mkPoint_def coordinate_exact [where f = y, OF _ assms(2)] cong: map_cong
      del: jsSub.simps jsMul.simps jsDiv.simps jsMax.simps)

lemma normalized_unit_range:
  assumes "p \<in> set ps"
  shows "- 1 \<le> normalized f ps p \<and> normalized f ps p \<le> 1"
proof -
  define lo hi where "lo = Min (f ` set ps)" and "hi = Max (f ` set ps)"
  define r where "r = max (hi - lo) 1"
  from assms have lo: "lo \<le> f p" and hi: "f p \<le> hi"
    by (simp_all add: lo_def hi_def)
  have r: "0 < r" "f p - lo \<le> r"
    using hi by (simp_all add: r_def)
  have "0 \<le> 2 * (f p - lo) / r"
    using lo r by simp
  moreover have "2 * (f p - lo) / r \<le> 2"
    using r by (simp add: divide_le_eq)
  ultimately show ?thesis
    by (simp add: normalized_def lo_def hi_def r_def)
qed

lemma length_normalizeCoordinates: "length (normalizeCoordinates ps) = length ps"
  by (simp add: normalizeCoordinates_def Let_def)

lemma extent_bound:
  assumes "ps \<noteq> []" and "\<forall>p \<in> set ps. \<forall>p' \<in> set ps. f p - f p' \<le> b"
  shows "Max (f ` set ps) - Min (f ` set ps) \<le> (b :: real)"
proof -
  from assms(1) have ne: "f ` set ps \<noteq> {}"
    by auto
  then have "Max (f ` set ps) \<in> f ` set ps" and "Min (f ` set ps) \<in> f ` set ps"
    by (auto intro: Max_in Min_in)
  with assms(2) show ?thesis
    by auto
qed

text \<open>
  C3, as stated, fails: two points at \<open>x = -2^1023\<close> and \<open>x = 2^1023\<close> (about 9e307, both
  finite doubles) are further apart than the largest double; the range overflows to
  infinity and the second point normalizes to NaN.
\<close>

theorem normalizeCoordinates_unit_range_counterexample:
  "x (normalizeCoordinates [mkPoint (- (2 ^ 1023)) 0 1, mkPoint (2 ^ 1023) 0 1] ! 1) = NaN \<and>
   \<not> inUnitInterval
       (x (normalizeCoordinates [mkPoint (- (2 ^ 1023)) 0 1, mkPoint (2 ^ 1023) 0 1] ! 1))"
proof -
  have "fl (2 ^ 1023 + 2 ^ 1023) = PosInf"
    using overflowAt_le by (simp add: fl_def)
  then show ?thesis
    by (simp add: normalizeCoordinates_def Let_def mkPoint_def inUnitInterval_def)
qed

text \<open>
  C3, amended. For every point list whose bounding box is at most \<open>2^1022\<close> wide and
  high (about 4.5e307, far beyond any canvas), normalization keeps the number of points,
  and every coordinate it produces, \<open>x\<close> and \<open>y\<close>, is a finite number of the closed
  interval from \<open>-1\<close> to \<open>1\<close>.
\<close>

theorem normalizeCoordinates_unit_range:
  assumes "\<forall>p \<in> set ps. \<forall>p' \<in> set ps. x p - x p' \<le> 2 ^ 1022 \<and> y p - y p' \<le> 2 ^ 1022"
  shows "length (normalizeCoordinates ps) = length ps \<and>
         (\<forall>q \<in> set (normalizeCoordinates ps). inUnitInterval (x q) \<and> inUnitInterval (y q))"
proof (cases "ps = []")
  case True
  then show ?thesis
    by (simp add: normalizeCoordinates_def)
next
  case False
  have small: "2 * (Max (f ` set ps) - Min (f ` set ps)) < overflowAt"
    if "\<forall>p \<in> set ps. \<forall>p' \<in> set ps. f p - f p' \<le> 2 ^ 1022" for f :: "real point \<Rightarrow> real"
  proof -
    from extent_bound [OF False that] have "2 * (Max (f ` set ps) - Min (f ` set ps)) \<le> 2 ^ 1023"
      by simp
    with overflowAt_gt show ?thesis
      by simp
  qed
  from assms have ex: "\<forall>p \<in> set ps. \<forall>p' \<in> set ps. x p - x p' \<le> 2 ^ 1022"
    and ey: "\<forall>p \<in> set ps. \<forall>p' \<in> set ps. y p - y p' \<le> 2 ^ 1022"
    by blast+
  note ext = small [OF ex] small [OF ey]
  have "inUnitInterval (x q) \<and> inUnitInterval (y q)"
    if "q \<in> set (normalizeCoordinates ps)" for q
  proof -
    from that obtain i where i: "i < length ps" and q: "q = normalizeCoordinates ps ! i"
      by (auto simp: in_set_conv_nth length_normalizeCoordinates)
    from i have "x q = map x (normalizeCoordinates ps) ! i"
      and "y q = map y (normalizeCoordinates ps) ! i"
      by (simp_all add: q length_normalizeCoordinates)
    with i have xy: "x q = Num (normalized x ps (ps ! i))" "y q = Num (normalized y ps (ps ! i))"
      by (simp_all add: normalizeCoordinates_x [OF False ext(1)]
          normalizeCoordinates_y [OF False ext(2)])
    from i have "ps ! i \<in> set ps"
      by simp
    from normalized_unit_range [OF this, of x] normalized_unit_range [OF this, of y]
    show ?thesis
      by (simp add: xy inUnitInterval_def)
  qed
  then show ?thesis
    by (simp add: length_normalizeCoordinates)
qed

theorem normalizeCoordinates_unit_range_witness:
  "length (normalizeCoordinates [mkPoint 0 5 1, mkPoint 10 5 1, mkPoint 4 6 0]) = 3 \<and>
   inUnitInterval (x (normalizeCoordinates [mkPoint 0 5 1, mkPoint 10 5 1, mkPoint 4 6 0] ! 2)) \<and>
   inUnitInterval (y (normalizeCoordinates [mkPoint 0 5 1, mkPoint 10 5 1, mkPoint 4 6 0] ! 2))"
proof -
  have "(10::real) \<le> 2 ^ 1022"
    using power_increasing [of 4 1022 "2::real"] by simp
  then have "\<forall>p \<in> set [mkPoint 0 5 1, mkPoint 10 5 1, mkPoint 4 6 0].
             \<forall>p' \<in> set [mkPoint 0 5 1, mkPoint 10 5 1, mkPoint 4 6 (0::nat)].
               x p - x p' \<le> 2 ^ 1022 \<and> y p - y p' \<le> (2::real) ^ 1022"
    by (simp add: mkPoint_def)
  from normalizeCoordinates_unit_range [OF this] show ?thesis
    by simp
qed

subsection \<open>Degenerate bounding boxes\<close>

lemma normalized_small_range:
  assumes "p \<in> set ps" and "\<forall>p \<in> set ps. \<forall>p' \<in> set ps. f p - f p' < 1"
  shows "normalized f ps p = 2 * (f p - Min (f ` set ps)) - 1"
    and "2 * (Max (f ` set ps) - Min (f ` set ps)) < overflowAt"
proof -
  from assms(1) have ne: "f ` set ps \<noteq> {}"
    by auto
  then have "Max (f ` set ps) \<in> f ` set ps" and "Min (f ` set ps) \<in> f ` set ps"
    by (auto intro: Max_in Min_in)
  with assms(2) have small: "Max (f ` set ps) - Min (f ` set ps) < 1"
    by auto
  then show "normalized f ps p = 2 * (f p - Min (f ` set ps)) - 1"
    by (simp add: normalized_def max_def)
  from small overflowAt_gt_2 show "2 * (Max (f ` set ps) - Min (f ` set ps)) < overflowAt"
    by simp
qed

lemma normalized_zero_extent:
  assumes "p \<in> set ps" and "\<forall>p \<in> set ps. f p = c"
  shows "normalized f ps p = - 1"
proof -
  from assms have "f ` set ps = {c}"
    by auto
  with assms show ?thesis
    by (simp add: normalized_def)
qed

lemma toDeltaCoordinates_constant:
  assumes "q \<in> set (toDeltaCoordinates ps)"
  shows "(\<forall>p \<in> set ps. x p = Num c) \<longrightarrow> x q = Num 0"
    and "(\<forall>p \<in> set ps. y p = Num c) \<longrightarrow> y q = Num 0"
proof -
  from assms obtain i where i: "i < length ps" and q: "q = toDeltaCoordinates ps ! i"
    by (auto simp: in_set_conv_nth length_toDeltaCoordinates)
  then have "i - 1 < length ps"
    by simp
  moreover have "fl 0 = Num 0"
    by (rule fl_small) simp
  ultimately show "(\<forall>p \<in> set ps. x p = Num c) \<longrightarrow> x q = Num 0"
    and "(\<forall>p \<in> set ps. y p = Num c) \<longrightarrow> y q = Num 0"
    using i by (auto simp: q toDeltaCoordinates_nth mkPoint_def)
qed

text \<open>
  C2, as stated, fails: a single point normalizes to \<open>(-1, -1)\<close>, not to \<open>(0, 0)\<close>.
\<close>

theorem normalizeCoordinates_degenerate_counterexample:
  "\<not> (\<forall>q \<in> set (normalizeCoordinates [mkPoint 5 7 1]). x q = Num 0 \<and> y q = Num 0)"
proof -
  have "fl 0 = Num 0" and "fl (- 1) = Num (- 1)"
    by (rule fl_small, simp)+
  then show ?thesis
    by (simp add: normalizeCoordinates_def mkPoint_def)
qed

text \<open>
  C2, amended. For a non-empty point list whose bounding box is smaller than 1 in a
  dimension, the divisor of normalization is 1 and not the extent: every coordinate
  \<open>v\<close> of that dimension becomes \<open>2 * (v - min) - 1\<close>. With zero extent (a single point,
  a horizontal or a vertical line) every output coordinate of that dimension is \<open>-1\<close>;
  it is the delta encoding that follows which turns them into zeros.
\<close>

theorem normalizeCoordinates_degenerate:
  assumes "ps \<noteq> []"
  shows
    "((\<forall>p \<in> set ps. \<forall>p' \<in> set ps. x p - x p' < 1) \<longrightarrow>
        map x (normalizeCoordinates ps) =
          map (\<lambda>p. Num (2 * (x p - Min (x ` set ps)) - 1)) ps) \<and>
     ((\<forall>p \<in> set ps. \<forall>p' \<in> set ps. y p - y p' < 1) \<longrightarrow>
        map y (normalizeCoordinates ps) =
          map (\<lambda>p. Num (2 * (y p - Min (y ` set ps)) - 1)) ps) \<and>
     ((\<forall>p \<in> set ps. x p = x (hd ps)) \<longrightarrow>
        (\<forall>q \<in> set (normalizeCoordinates ps). x q = Num (- 1)) \<and>
        (\<forall>q \<in> set (toDeltaCoordinates (normalizeCoordinates ps)). x q = Num 0)) \<and>
     ((\<forall>p \<in> set ps. y p = y (hd ps)) \<longrightarrow>
        (\<forall>q \<in> set (normalizeCoordinates ps). y q = Num (- 1)) \<and>
        (\<forall>q \<in> set (toDeltaCoordinates (normalizeCoordinates ps)). y q = Num 0))"
proof -
  from assms have hd: "hd ps \<in> set ps"
    by simp
  have small_x: "map x (normalizeCoordinates ps) =
      map (\<lambda>p. Num (2 * (x p - Min (x ` set ps)) - 1)) ps"
    if "\<forall>p \<in> set ps. \<forall>p' \<in> set ps. x p - x p' < 1"
    using normalized_small_range(1) [OF _ that]
    by (simp add: normalizeCoordinates_x [OF assms normalized_small_range(2) [OF hd that]]
        cong: map_cong)
  have small_y: "map y (normalizeCoordinates ps) =
      map (\<lambda>p. Num (2 * (y p - Min (y ` set ps)) - 1)) ps"
    if "\<forall>p \<in> set ps. \<forall>p' \<in> set ps. y p - y p' < 1"
    using normalized_small_range(1) [OF _ that]
    by (simp add: normalizeCoordinates_y [OF assms normalized_small_range(2) [OF hd that]]
        cong: map_cong)
  have flat_x: "\<forall>q \<in> set (normalizeCoordinates ps). x q = Num (- 1)"
    if flat: "\<forall>p \<in> set ps. x p = x (hd ps)"
  proof -
    from flat have "\<forall>p \<in> set ps. \<forall>p' \<in> set ps. x p - x p' < 1"
      by simp
    from normalizeCoordinates_x [OF assms normalized_small_range(2) [OF hd this]]
    have "map x (normalizeCoordinates ps) = map (\<lambda>p. Num (- 1)) ps"
      using normalized_zero_extent [OF _ flat] by (simp cong: map_cong)
    then have "x ` set (normalizeCoordinates ps) \<subseteq> {Num (- 1)}"
      by (metis (no_types) image_set set_map image_subset_iff singletonI imageE)
    then show ?thesis
      by auto
  qed
  have flat_y: "\<forall>q \<in> set (normalizeCoordinates ps). y q = Num (- 1)"
    if flat: "\<forall>p \<in> set ps. y p = y (hd ps)"
  proof -
    from flat have "\<forall>p \<in> set ps. \<forall>p' \<in> set ps. y p - y p' < 1"
      by simp
    from normalizeCoordinates_y [OF assms normalized_small_range(2) [OF hd this]]
    have "map y (normalizeCoordinates ps) = map (\<lambda>p. Num (- 1)) ps"
      using normalized_zero_extent [OF _ flat] by (simp cong: map_cong)
    then have "y ` set (normalizeCoordinates ps) \<subseteq> {Num (- 1)}"
      by (metis (no_types) image_set set_map image_subset_iff singletonI imageE)
    then show ?thesis
      by auto
  qed
  from small_x small_y flat_x flat_y
    toDeltaCoordinates_constant [of _ "normalizeCoordinates ps" "- 1"]
  show ?thesis
    by blast
qed

theorem normalizeCoordinates_degenerate_witness:
  "[mkPoint 5 7 1, mkPoint 5 (15 / 2) 0] \<noteq> [] \<and>
   map x (normalizeCoordinates [mkPoint 5 7 1, mkPoint 5 (15 / 2) 0]) = [Num (- 1), Num (- 1)] \<and>
   map y (normalizeCoordinates [mkPoint 5 7 1, mkPoint 5 (15 / 2) 0]) = [Num (- 1), Num 0] \<and>
   list_all (\<lambda>q. x q = Num 0)
     (toDeltaCoordinates (normalizeCoordinates [mkPoint 5 7 1, mkPoint 5 (15 / 2) 0]))"
  using normalizeCoordinates_degenerate [of "[mkPoint 5 7 1, mkPoint 5 (15 / 2) 0]"]
  by (simp add: mkPoint_def list_all_iff)

section \<open>Resampling\<close>

text \<open>
  C4. The code fails the claim. The comment in \<^verbatim>\<open>_resamplePoints\<close> reads "Always include
  last point", and the test under it pushes the last point only when its coordinates
  differ from those of the last kept point. Two taps on one spot are two strokes of one
  point each, as capture records them, and resample to one point: the final point is not
  pushed, and the two points of the list leave one frame. On a list that ends pen down,
  which \<^verbatim>\<open>process\<close> accepts and capture does not record, the final point is lost with
  its pen state too: after a tap at the origin, a stroke that goes one unit away and comes
  back resamples to the tap alone. Every intermediate value on these inputs is one of -1,
  0, 1 and 2, which rounding leaves as they are.
\<close>

theorem resamplePoints_drops_final_point:
  "getStrokes
     (run [PointerDown \<lparr>clientX = 5, clientY = 5, rectLeft = 0, rectTop = 0,
                         rectWidth = 400, rectHeight = 200, now = 1000\<rparr>,
           PointerUp,
           PointerDown \<lparr>clientX = 5, clientY = 5, rectLeft = 0, rectTop = 0,
                         rectWidth = 400, rectHeight = 200, now = 1500\<rparr>,
           PointerUp]
        (newCapture 400 200)) = [[mkPoint 5 5 0], [mkPoint 5 5 0]] \<and>
   (rnd 0 = 0 \<longrightarrow>
      resamplePoints rnd DEFAULT_CONFIG (flattenStrokes [[mkPoint 5 5 0], [mkPoint 5 5 0]]) =
        [mkPoint 5 5 0]) \<and>
   (rnd 0 = 0 \<and> rnd 1 = 1 \<and> rnd 2 = 2 \<and> rnd (- 1) = - 1 \<longrightarrow>
      resamplePoints rnd DEFAULT_CONFIG
        (flattenStrokes [[mkPoint 0 0 0], [mkPoint 1 0 1, mkPoint 0 0 1]]) = [mkPoint 0 0 0] \<and>
      mkPoint 0 0 1 \<notin> set (resamplePoints rnd DEFAULT_CONFIG
        (flattenStrokes [[mkPoint 0 0 0], [mkPoint 1 0 1, mkPoint 0 0 1]])))"
proof -
  have taps: "getStrokes
     (run [PointerDown \<lparr>clientX = 5, clientY = 5, rectLeft = 0, rectTop = 0,
                         rectWidth = 400, rectHeight = 200, now = 1000\<rparr>,
           PointerUp,
           PointerDown \<lparr>clientX = 5, clientY = 5, rectLeft = 0, rectTop = 0,
                         rectWidth = 400, rectHeight = 200, now = 1500\<rparr>,
           PointerUp]
        (newCapture 400 200)) = [[mkPoint 5 5 0], [mkPoint 5 5 0]]"
    by (simp add: run_def getStrokes_def newCapture_def onPointerDown_def onPointerUp_def
        getCanvasPoint_def mkPoint_def Let_def)
  have two: "resamplePoints rnd DEFAULT_CONFIG
      (flattenStrokes [[mkPoint 5 5 0], [mkPoint 5 5 0]]) = [mkPoint 5 5 0]"
    if "rnd 0 = 0"
    using that
    by (simp add: resamplePoints_def resampleLoop.simps flattenStrokes_def DEFAULT_CONFIG_def
        mkPoint_def Let_def)
  have lost: "resamplePoints rnd DEFAULT_CONFIG
      (flattenStrokes [[mkPoint 0 0 0], [mkPoint 1 0 1, mkPoint 0 0 1]]) = [mkPoint 0 0 0]"
    if "rnd 0 = 0 \<and> rnd 1 = 1 \<and> rnd 2 = 2 \<and> rnd (- 1) = - 1"
    using that
    by (simp add: resamplePoints_def resampleLoop.simps flattenStrokes_def DEFAULT_CONFIG_def
        mkPoint_def Let_def)
  have "mkPoint 0 0 1 \<notin> set [mkPoint 0 0 (0::nat) :: real point]"
    by (simp add: mkPoint_def)
  with taps two lost show ?thesis
    by simp
qed

theorem resamplePoints_drops_final_point_witness:
  "resamplePoints (\<lambda>r. r) DEFAULT_CONFIG (flattenStrokes [[mkPoint 5 5 0], [mkPoint 5 5 0]]) =
     [mkPoint 5 5 0] \<and>
   resamplePoints (\<lambda>r. r) DEFAULT_CONFIG
     (flattenStrokes [[mkPoint 0 0 0], [mkPoint 1 0 1, mkPoint 0 0 1]]) = [mkPoint 0 0 0]"
  using resamplePoints_drops_final_point [of "\<lambda>r. r"]
  by simp

section \<open>Capture\<close>

lemma handle_no_timestamp:
  assumes "\<forall>s \<in> set (strokes c). \<forall>p \<in> set s. timestamp p = None"
    and "\<forall>p \<in> set (currentStroke c). timestamp p = None"
  shows "(\<forall>s \<in> set (strokes (handle e c)). \<forall>p \<in> set s. timestamp p = None) \<and>
         (\<forall>p \<in> set (currentStroke (handle e c)). timestamp p = None)"
proof (cases e)
  case (PointerDown event)
  with assms show ?thesis
    by (simp add: onPointerDown_def Let_def mkPoint_def)
next
  case (PointerMove event)
  with assms show ?thesis
    by (simp add: onPointerMove_def Let_def mkPoint_def)
next
  case PointerUp
  have "timestamp p = None"
    if "p \<in> set ((currentStroke c)[i := (currentStroke c ! i)\<lparr>penState := 0\<rparr>])"
      and "i < length (currentStroke c)" for p i
  proof -
    from that(1) have "p = (currentStroke c ! i)\<lparr>penState := 0\<rparr> \<or> p \<in> set (currentStroke c)"
      using set_update_subset_insert [of "currentStroke c" i] by auto
    with assms(2) that(2) show ?thesis
      by auto
  qed
  with PointerUp assms show ?thesis
    by (auto simp: onPointerUp_def Let_def)
next
  case Clear
  then show ?thesis
    by (simp add: clear_def)
qed

lemma run_no_timestamp:
  assumes "\<forall>s \<in> set (strokes c). \<forall>p \<in> set s. timestamp p = None"
    and "\<forall>p \<in> set (currentStroke c). timestamp p = None"
  shows "(\<forall>s \<in> set (strokes (run events c)). \<forall>p \<in> set s. timestamp p = None) \<and>
         (\<forall>p \<in> set (currentStroke (run events c)). timestamp p = None)"
  using assms
proof (induction events arbitrary: c)
  case Nil
  then show ?case
    by (simp add: run_def)
next
  case (Cons e events)
  from handle_no_timestamp [OF Cons.prems, of e] have
    "(\<forall>s \<in> set (strokes (run events (handle e c))). \<forall>p \<in> set s. timestamp p = None) \<and>
     (\<forall>p \<in> set (currentStroke (run events (handle e c))). timestamp p = None)"
    by (intro Cons.IH) simp_all
  then show ?case
    by (simp add: run_def)
qed

text \<open>
  C10, as stated, fails: the two points of a stroke drawn at the clock readings 1000 and
  1016 carry no timestamp.
\<close>

theorem capture_timestamp_counterexample:
  "map (map timestamp)
     (getStrokes
        (run [PointerDown \<lparr>clientX = 10, clientY = 10, rectLeft = 0, rectTop = 0,
                            rectWidth = 400, rectHeight = 200, now = 1000\<rparr>,
              PointerMove \<lparr>clientX = 20, clientY = 10, rectLeft = 0, rectTop = 0,
                            rectWidth = 400, rectHeight = 200, now = 1016\<rparr>,
              PointerUp]
           (newCapture 400 200))) = [[None, None]]"
  by (simp add: run_def getStrokes_def newCapture_def onPointerDown_def onPointerMove_def
      onPointerUp_def getCanvasPoint_def mkPoint_def Let_def)

text \<open>
  C10, amended. No point recorded by \<open>StrokeCapture\<close>, in a completed stroke or in the stroke
  under way, carries a timestamp, whatever the events were: a recorded point holds \<open>x\<close>, \<open>y\<close>
  and \<open>penState\<close> only. The reading of the clock taken on pointer down, and on pointer move
  while drawing, is kept in \<open>lastPoint\<close> alone.
\<close>

theorem capture_records_no_timestamp:
  "(\<forall>s \<in> set (getStrokes (run events (newCapture w h))). \<forall>p \<in> set s. timestamp p = None) \<and>
   (\<forall>p \<in> set (currentStroke (run events (newCapture w h))). timestamp p = None) \<and>
   map_option canvas_point.timestamp (lastPoint (onPointerDown c event)) = Some (now event) \<and>
   (isDrawing c \<longrightarrow>
      map_option canvas_point.timestamp (lastPoint (onPointerMove c event)) = Some (now event))"
proof -
  have "(\<forall>s \<in> set (strokes (run events (newCapture w h))). \<forall>p \<in> set s. timestamp p = None) \<and>
        (\<forall>p \<in> set (currentStroke (run events (newCapture w h))). timestamp p = None)"
    by (rule run_no_timestamp) (simp_all add: newCapture_def)
  then show ?thesis
    by (simp add: getStrokes_def onPointerDown_def onPointerMove_def getCanvasPoint_def Let_def)
qed

theorem capture_records_no_timestamp_witness:
  "list_all (list_all (\<lambda>p. timestamp p = None))
     (getStrokes
        (run [PointerDown \<lparr>clientX = 10, clientY = 10, rectLeft = 0, rectTop = 0,
                            rectWidth = 400, rectHeight = 200, now = 1000\<rparr>,
              PointerUp]
           (newCapture 400 200))) \<and>
   isDrawing (onPointerDown (newCapture 400 200)
     \<lparr>clientX = 10, clientY = 10, rectLeft = 0, rectTop = 0,
      rectWidth = 400, rectHeight = 200, now = 1000\<rparr>) \<and>
   map_option canvas_point.timestamp
     (lastPoint (onPointerMove
        (onPointerDown (newCapture 400 200)
           \<lparr>clientX = 10, clientY = 10, rectLeft = 0, rectTop = 0,
            rectWidth = 400, rectHeight = 200, now = 1000\<rparr>)
        \<lparr>clientX = 20, clientY = 10, rectLeft = 0, rectTop = 0,
         rectWidth = 400, rectHeight = 200, now = 1016\<rparr>)) = Some 1016"
proof -
  let ?e1 = "\<lparr>clientX = 10, clientY = 10, rectLeft = 0, rectTop = 0,
              rectWidth = 400, rectHeight = 200, now = 1000\<rparr>"
  let ?e2 = "\<lparr>clientX = 20, clientY = 10, rectLeft = 0, rectTop = 0,
              rectWidth = 400, rectHeight = 200, now = 1016\<rparr>"
  let ?c1 = "onPointerDown (newCapture 400 200) ?e1"
  have drawing: "isDrawing ?c1"
    by (simp add: onPointerDown_def Let_def)
  from capture_records_no_timestamp [of "[PointerDown ?e1, PointerUp]" 400 200 ?c1 ?e2] drawing
  show ?thesis
    by (simp add: list_all_iff)
qed

section \<open>Empty input\<close>

text \<open>
  C7, as stated, fails: before a model is loaded, a request on a canvas with zero strokes
  throws instead of returning the empty result.
\<close>

theorem recognizeOffline_empty_counterexample:
  "getStrokes (newCapture 400 200) = [] \<and>
   recognizeOffline
     \<lparr>recognizer = (None :: (stroke list \<Rightarrow> string + string) option),
      strokeCaptures = [''modalCanvas'' \<mapsto> newCapture 400 200],
      isModelLoaded = False, modelLoadPromise = None\<rparr> ''modalCanvas'' =
     (Inl ''Model not available'', [])"
  by (simp add: recognizeOffline_def getStrokes_def newCapture_def)

text \<open>
  C7, amended. When the model is loaded (the load promise is not rejected, \<open>isModelLoaded\<close>
  holds and the recognizer exists) and the canvas has a stroke capture, a request with zero
  strokes returns the empty result, \<^verbatim>\<open>{ text: '', isEmpty: true }\<close>, with no call of the
  recognizer. In every state, a request on a canvas with zero strokes (or with no capture)
  makes no call of the recognizer, whether it returns or throws. \<open>process\<close> on a missing or
  empty stroke list returns the all-zero tensor.
\<close>

theorem recognizeOffline_empty:
  "(modelLoadPromise st \<in> {None, Some Fulfilled} \<and> isModelLoaded st \<and>
    recognizer st = Some recognize \<and> strokeCaptures st canvasId = Some cap \<and>
    getStrokes cap = [] \<longrightarrow>
      recognizeOffline st canvasId = (Inr EmptyInput, [])) \<and>
   ((\<forall>cap. strokeCaptures st canvasId = Some cap \<longrightarrow> getStrokes cap = []) \<longrightarrow>
      snd (recognizeOffline st canvasId) = []) \<and>
   process rnd cfg None = replicate (maxSeqLength cfg * 3) (Num 0) \<and>
   process rnd cfg (Some []) = replicate (maxSeqLength cfg * 3) (Num 0)"
proof -
  have a: "recognizeOffline st canvasId = (Inr EmptyInput, [])"
    if "modelLoadPromise st \<in> {None, Some Fulfilled} \<and> isModelLoaded st \<and>
        recognizer st = Some recognize \<and> strokeCaptures st canvasId = Some cap \<and>
        getStrokes cap = []"
    using that by (auto simp: recognizeOffline_def)
  have b: "snd (recognizeOffline st canvasId) = []"
    if "\<forall>cap. strokeCaptures st canvasId = Some cap \<longrightarrow> getStrokes cap = []"
    using that
    by (auto simp: recognizeOffline_def Let_def
        split: option.splits load_promise.splits bool.splits sum.splits)
  from a b show ?thesis
    by (simp add: process_def)
qed

theorem recognizeOffline_empty_witness:
  "recognizeOffline
     \<lparr>recognizer = Some (\<lambda>strokes. Inr ''ka'' :: string + string),
      strokeCaptures = [''modalCanvas'' \<mapsto> newCapture 400 200],
      isModelLoaded = True, modelLoadPromise = Some Fulfilled\<rparr> ''modalCanvas'' =
     (Inr EmptyInput, []) \<and>
   snd (recognizeOffline
     \<lparr>recognizer = (None :: (stroke list \<Rightarrow> string + string) option),
      strokeCaptures = [''modalCanvas'' \<mapsto> newCapture 400 200],
      isModelLoaded = False, modelLoadPromise = Some (Rejected ''load failed'')\<rparr>
     ''modalCanvas'') = []"
  using
    recognizeOffline_empty
      [of "\<lparr>recognizer = Some (\<lambda>strokes. Inr ''ka'' :: string + string),
            strokeCaptures = [''modalCanvas'' \<mapsto> newCapture 400 200],
            isModelLoaded = True, modelLoadPromise = Some Fulfilled\<rparr>"
          "\<lambda>strokes. Inr ''ka''" "''modalCanvas''" "newCapture 400 200"]
    recognizeOffline_empty
      [of "\<lparr>recognizer = None,
            strokeCaptures = [''modalCanvas'' \<mapsto> newCapture 400 200],
            isModelLoaded = False, modelLoadPromise = Some (Rejected ''load failed'')\<rparr>"
          _ "''modalCanvas''"]
  by (simp add: getStrokes_def newCapture_def)

section \<open>Greedy CTC decoding\<close>

lemma dropBlanks_collapseRepeats:
  "dropBlanks b (collapseRepeats b ls) = dropBlanks b (remdups_adj ls)"
  by (induction b ls rule: collapseRepeats.induct) (auto simp: dropBlanks_def)

text \<open>
  C9. Over the alphabet of blank, ka and kha, a probability matrix whose arg-max labels are
  ka, blank, ka decodes to the two letters ka ka, and one whose arg-max labels are
  ka, ka, blank decodes to the single letter ka. For every alphabet and matrix, the decoded
  labels are the arg-max labels with runs of one label merged and the blanks removed.
\<close>

theorem greedyDecode_collapse:
  "(map argmax m = [1, 0, 1] \<longrightarrow> greedyDecode kaKhaAlphabet m = [2325, 2325]) \<and>
   (map argmax m = [1, 1, 0] \<longrightarrow> greedyDecode kaKhaAlphabet m = [2325]) \<and>
   greedyDecode a m =
     concat (map (symbolOf a) (filter (\<lambda>l. l \<noteq> blank a) (remdups_adj (map argmax m))))"
  by (simp add: greedyDecode_def dropBlanks_collapseRepeats)
     (simp add: dropBlanks_def kaKhaAlphabet_def symbolOf_def)

theorem greedyDecode_collapse_witness:
  "map argmax [[1 / 10, 8 / 10, 1 / 10], [7 / 10, 2 / 10, 1 / 10], [2 / 10, 6 / 10, 2 / 10]] =
     [1, 0, 1] \<and>
   greedyDecode kaKhaAlphabet
     [[1 / 10, 8 / 10, 1 / 10], [7 / 10, 2 / 10, 1 / 10], [2 / 10, 6 / 10, 2 / 10]] =
     [2325, 2325] \<and>
   map argmax [[1 / 10, 8 / 10, 1 / 10], [1 / 10, 7 / 10, 2 / 10], [9 / 10, 1 / 20, 1 / 20]] =
     [1, 1, 0] \<and>
   greedyDecode kaKhaAlphabet
     [[1 / 10, 8 / 10, 1 / 10], [1 / 10, 7 / 10, 2 / 10], [9 / 10, 1 / 20, 1 / 20]] = [2325]"
proof -
  let ?m1 = "[[1 / 10, 8 / 10, 1 / 10], [7 / 10, 2 / 10, 1 / 10], [2 / 10, 6 / 10, 2 / 10 :: real]]"
  let ?m2 = "[[1 / 10, 8 / 10, 1 / 10], [1 / 10, 7 / 10, 2 / 10], [9 / 10, 1 / 20, 1 / 20 :: real]]"
  have a1: "map argmax ?m1 = [1, 0, 1]" and a2: "map argmax ?m2 = [1, 1, 0]"
    by (simp_all add: argmax_def)
  from greedyDecode_collapse [of ?m1 kaKhaAlphabet, THEN conjunct1] a1
  have d1: "greedyDecode kaKhaAlphabet ?m1 = [2325, 2325]"
    by (rule mp)
  from greedyDecode_collapse [of ?m2 kaKhaAlphabet, THEN conjunct2, THEN conjunct1] a2
  have d2: "greedyDecode kaKhaAlphabet ?m2 = [2325]"
    by (rule mp)
  from a1 d1 a2 d2 show ?thesis
    by (intro conjI)
qed

section \<open>Strategy selection\<close>











end
